theory Spec2Isabelle
  imports Complex_Main
begin

section \<open>The chat client of the Wunderlust example and its relay backend\<close>

text \<open>
  The theory embeds the conversation logic of \<^verbatim>\<open>frontend/src/app.tsx\<close> (the functions
  \<^verbatim>\<open>createThread\<close>, \<^verbatim>\<open>sendMessage\<close>, \<^verbatim>\<open>onSendMessage\<close>, \<^verbatim>\<open>updateMap\<close>,
  \<^verbatim>\<open>addMarker\<close>, \<^verbatim>\<open>invokeChatbotFunctions\<close> and \<^verbatim>\<open>updateMessages\<close> of the component
  \<^verbatim>\<open>App\<close>) and the function \<^verbatim>\<open>sendMessage\<close> of the relay backend.

  The component's hooks (\<^verbatim>\<open>useState\<close>, \<^verbatim>\<open>useRef\<close>) and the browser's local storage
  become the fields of one record, passed through every function and returned updated.
  An \<^verbatim>\<open>async\<close> function becomes a function from the state to an outcome (returned
  or thrown) and the state it leaves behind: a rejected promise keeps every assignment
  made before the rejection. Each call runs to its end before the next one starts, and
  a state variable read by a call has the value the previous call left.
  Whatever lies outside the repository (the HTTP responses, \<^verbatim>\<open>JSON.parse\<close>,
  \<^verbatim>\<open>String.prototype.trim\<close>, the properties every object inherits from
  \<^verbatim>\<open>Object.prototype\<close>) is a parameter.

  The source holds two revisions of the component. The functions embedded here read
  the same in both, but for \<^verbatim>\<open>onSendMessage\<close>: the later revision has a hook
  \<^verbatim>\<open>recording\<close> and tests it first. Both revisions of that function are embedded. The
  calls to the analytics library and to the scroll container are left out: they touch
  none of the fields below.
\<close>

subsection \<open>Values, errors and outcomes\<close>

text \<open>
  A value as \<^verbatim>\<open>JSON.parse\<close> yields it, with \<^verbatim>\<open>undefined\<close> added for a property that
  is absent. An object lists each of its properties once. Numbers are stored and passed
  on, never computed with.
\<close>

datatype jsval =
    JUndefined
  | JNull
  | JBool bool
  | JNum rat
  | JStr string
  | JArr "jsval list"
  | JObj "(string \<times> jsval) list"

datatype js_error = AxiosError | TypeError | SyntaxError | APIError | MongoError

datatype 'a outcome = Returns 'a | Throws js_error

subsection \<open>The data of the Assistants API that the client reads\<close>

datatype message_content = MessageContentText string | MessageContentImageFile string

record thread_message =
  msg_id :: string
  msg_role :: string
  created_at :: nat
  msg_content :: "message_content list"

text \<open>An entry of \<^verbatim>\<open>run.required_action.submit_tool_outputs.tool_calls\<close>.\<close>

record tool_call =
  tc_id :: string
  tc_type :: string
  fn_name :: string
  fn_arguments :: string

record required_action =
  ra_type :: string
  tool_calls :: "tool_call list"

record run =
  run_id :: string
  run_status :: string
  run_required_action :: "required_action option"

text \<open>The body of the response of \<^verbatim>\<open>/chat/list\<close>: \<^verbatim>\<open>{ messages, status, run }\<close>.\<close>

record list_response =
  lr_messages :: "thread_message list"
  lr_status :: "string option"
  lr_run :: "run option"

text \<open>An element of \<^verbatim>\<open>outputs\<close> in \<^verbatim>\<open>invokeChatbotFunctions\<close>.\<close>

record tool_output =
  tool_call_id :: string
  tc_output :: jsval

subsection \<open>Requests and the world outside\<close>

text \<open>The HTTP requests the client issues, with the body each one carries.\<close>

datatype http_request =
    PostChatNew
  | PostChatSend "string option" string
  | PostChatList "string option" "string option"
  | PostChatSubmit "string option" "string option" "tool_output list"

text \<open>
  The answers of the outside world. A request that \<^verbatim>\<open>axios\<close> rejects is \<open>None\<close>
  (\<open>False\<close> for the request whose response body is not read); \<^verbatim>\<open>JSON.parse\<close>
  is \<open>None\<close> where it throws a \<^verbatim>\<open>SyntaxError\<close>. \<open>Object_prototype\<close> gives the
  callable properties that the object literal \<^verbatim>\<open>chatbotFunctions\<close> inherits from the
  runtime (\<^verbatim>\<open>toString\<close>, \<^verbatim>\<open>valueOf\<close>, ...) and \<open>None\<close> for every other name.
  \<open>String_trim\<close> is \<^verbatim>\<open>String.prototype.trim\<close> of the runtime, which strips the white
  space and the line terminators of Unicode from both ends.
\<close>

record world =
  post_chat_new :: "string option"
  post_chat_send :: "string option \<Rightarrow> string \<Rightarrow> string option"
  post_chat_list :: "string option \<Rightarrow> string option \<Rightarrow> list_response option"
  post_chat_submit :: "string option \<Rightarrow> string option \<Rightarrow> tool_output list \<Rightarrow> bool"
  JSON_parse :: "string \<Rightarrow> jsval option"
  Object_prototype :: "string \<Rightarrow> (jsval \<Rightarrow> jsval outcome) option"
  String_trim :: "string \<Rightarrow> string"

subsection \<open>The state of the component\<close>

record lat_lng =
  latitude :: jsval
  longitude :: jsval

record map_marker = lat_lng +
  label :: jsval

text \<open>The callback handed to \<^verbatim>\<open>setTimeout\<close> in \<^verbatim>\<open>updateMessages\<close>.\<close>

datatype timer_callback = ClearRunId

text \<open>
  \<open>threadId\<close> is the \<^verbatim>\<open>useRef\<close> cell, the next nine fields are the \<^verbatim>\<open>useState\<close>
  variables, \<open>localStorage\<close> is the browser's store. The hook \<^verbatim>\<open>recording\<close> exists in
  the later revision only; a state of the first revision has it \<open>False\<close>. \<open>requests\<close> records the HTTP
  requests issued so far, oldest first, and \<open>timeouts\<close> the timers scheduled and not yet
  fired, with their delay in milliseconds. The TypeScript annotation \<^verbatim>\<open>number\<close> of the
  map fields is erased at run time: they hold whatever the tool arguments held.
\<close>

record app_state =
  threadId :: "string option"
  runId :: "string option"
  messages :: "thread_message list"
  message :: string
  chatbotVisible :: bool
  showInfo :: bool
  mapCenter :: lat_lng
  mapZoom :: jsval
  mapMarker :: "map_marker option"
  recording :: bool
  localStorage :: "string \<rightharpoonup> string"
  requests :: "http_request list"
  timeouts :: "(nat \<times> timer_callback) list"

text \<open>The state of a freshly mounted component over a given local storage.\<close>

definition initial_state :: "(string \<rightharpoonup> string) \<Rightarrow> app_state" where
  "initial_state store =
     \<lparr> threadId = None, runId = None, messages = [], message = [],
       chatbotVisible = True, showInfo = True,
       mapCenter = \<lparr> latitude = JNum 51.505, longitude = JNum (- 0.09) \<rparr>,
       mapZoom = JNum 13, mapMarker = None, recording = False,
       localStorage = store, requests = [], timeouts = [] \<rparr>"

text \<open>
  Reloading the page mounts the component again: every hook starts from its initial
  value, the local storage is kept.
\<close>

definition reload :: "app_state \<Rightarrow> app_state" where
  "reload s = initial_state (localStorage s)"

text \<open>A string or \<^verbatim>\<open>undefined\<close>/\<^verbatim>\<open>null\<close> used as a condition: the empty string is falsy.\<close>

definition truthy :: "string option \<Rightarrow> bool" where
  "truthy v = (case v of None \<Rightarrow> False | Some x \<Rightarrow> x \<noteq> [])"

subsection \<open>\<^verbatim>\<open>sendMessage\<close> and \<^verbatim>\<open>onSendMessage\<close>\<close>

text \<open>
  \<^verbatim>\<open>sendMessage\<close> of the client: nothing happens while a run is recorded; otherwise the
  text goes to \<^verbatim>\<open>/chat/send\<close> and the run id of the response is recorded.
\<close>

definition sendMessage :: "world \<Rightarrow> string \<Rightarrow> app_state \<Rightarrow> unit outcome \<times> app_state" where
  "sendMessage w text s =
     (if runId s \<noteq> None then (Returns (), s)
      else
        let s1 = s\<lparr>requests := requests s @ [PostChatSend (threadId s) text]\<rparr> in
        case post_chat_send w (threadId s) text of
          None \<Rightarrow> (Throws AxiosError, s1)
        | Some data_runId \<Rightarrow> (Returns (), s1\<lparr>runId := Some data_runId\<rparr>))"







subsection \<open>The tool handlers and their registry\<close>

text \<open>
  Destructuring \<^verbatim>\<open>{ longitude, latitude, zoom }\<close> or \<^verbatim>\<open>{ latitude, longitude, label }\<close>
  from the argument: a property the value does not have is \<^verbatim>\<open>undefined\<close>. Used for
  these four property names only, which no primitive value and no array has.
\<close>

fun destructure :: "jsval \<Rightarrow> string \<Rightarrow> jsval" where
  "destructure (JObj props) k = (case map_of props k of Some v \<Rightarrow> v | None \<Rightarrow> JUndefined)"
| "destructure _ k = JUndefined"

text \<open>Destructuring \<^verbatim>\<open>null\<close> or \<^verbatim>\<open>undefined\<close> in a parameter list throws a \<^verbatim>\<open>TypeError\<close>.\<close>

definition updateMap :: "jsval \<Rightarrow> app_state \<Rightarrow> string outcome \<times> app_state" where
  "updateMap args s =
     (if args = JNull \<or> args = JUndefined then (Throws TypeError, s)
      else (Returns ''Map updated'',
            s\<lparr>mapCenter := \<lparr> latitude = destructure args ''latitude'',
                              longitude = destructure args ''longitude'' \<rparr>,
              mapZoom := destructure args ''zoom''\<rparr>))"

definition addMarker :: "jsval \<Rightarrow> app_state \<Rightarrow> string outcome \<times> app_state" where
  "addMarker args s =
     (if args = JNull \<or> args = JUndefined then (Throws TypeError, s)
      else (Returns ''Marker added'',
            s\<lparr>mapMarker := Some \<lparr> latitude = destructure args ''latitude'',
                                   longitude = destructure args ''longitude'',
                                   label = destructure args ''label'' \<rparr>\<rparr>))"

text \<open>The own properties of the object literal \<^verbatim>\<open>{ updateMap, addMarker }\<close>.\<close>

definition chatbotFunctions ::
  "string \<Rightarrow> (jsval \<Rightarrow> app_state \<Rightarrow> string outcome \<times> app_state) option" where
  "chatbotFunctions functionName =
     (if functionName = ''updateMap'' then Some updateMap
      else if functionName = ''addMarker'' then Some addMarker
      else None)"

text \<open>
  The expression \<^verbatim>\<open>chatbotFunctions[functionName](toolArgs)\<close>: an own property first,
  then the prototype chain; calling what is not a function throws a \<^verbatim>\<open>TypeError\<close>.
\<close>

definition call_chatbotFunction ::
  "world \<Rightarrow> string \<Rightarrow> jsval \<Rightarrow> app_state \<Rightarrow> jsval outcome \<times> app_state" where
  "call_chatbotFunction w functionName toolArgs s =
     (case chatbotFunctions functionName of
        Some handler \<Rightarrow>
          (case handler toolArgs s of
             (Returns text, s') \<Rightarrow> (Returns (JStr text), s')
           | (Throws e, s') \<Rightarrow> (Throws e, s'))
      | None \<Rightarrow>
          (case Object_prototype w functionName of
             Some inherited \<Rightarrow> (inherited toolArgs, s)
           | None \<Rightarrow> (Throws TypeError, s)))"

subsection \<open>\<^verbatim>\<open>invokeChatbotFunctions\<close>, \<^verbatim>\<open>updateMessages\<close> and \<^verbatim>\<open>createThread\<close>\<close>

text \<open>The \<^verbatim>\<open>for\<close> loop of \<^verbatim>\<open>invokeChatbotFunctions\<close>, with \<^verbatim>\<open>outputs\<close> as accumulator.\<close>

fun tool_calls_loop ::
  "world \<Rightarrow> tool_call list \<Rightarrow> tool_output list \<Rightarrow> app_state
     \<Rightarrow> tool_output list outcome \<times> app_state" where
  "tool_calls_loop w [] outputs s = (Returns outputs, s)"
| "tool_calls_loop w (toolCall # rest) outputs s =
     (if tc_type toolCall = ''function'' then
        (case JSON_parse w (fn_arguments toolCall) of
           None \<Rightarrow> (Throws SyntaxError, s)
         | Some toolArgs \<Rightarrow>
             (case call_chatbotFunction w (fn_name toolCall) toolArgs s of
                (Throws e, s') \<Rightarrow> (Throws e, s')
              | (Returns functionOutput, s') \<Rightarrow>
                  tool_calls_loop w rest
                    (outputs @ [\<lparr> tool_call_id = tc_id toolCall, tc_output = functionOutput \<rparr>])
                    s'))
      else tool_calls_loop w rest outputs s)"

definition invokeChatbotFunctions :: "world \<Rightarrow> run \<Rightarrow> app_state \<Rightarrow> unit outcome \<times> app_state" where
  "invokeChatbotFunctions w r s =
     (case run_required_action r of
        None \<Rightarrow> (Returns (), s)
      | Some ra \<Rightarrow>
          if ra_type ra = ''submit_tool_outputs'' then
            (case tool_calls_loop w (tool_calls ra) [] s of
               (Throws e, s') \<Rightarrow> (Throws e, s')
             | (Returns outputs, s') \<Rightarrow>
                 let s'' = s'\<lparr>requests :=
                             requests s' @ [PostChatSubmit (threadId s') (runId s') outputs]\<rparr>
                 in if post_chat_submit w (threadId s') (runId s') outputs
                    then (Returns (), s'')
                    else (Throws AxiosError, s''))
          else (Returns (), s))"

text \<open>
  \<^verbatim>\<open>updateMessages\<close>: one request to \<^verbatim>\<open>/chat/list\<close>, the reversed snapshot stored, the
  tool calls run when the status is \<^verbatim>\<open>requires_action\<close> (reading a property of an
  absent \<^verbatim>\<open>run\<close> throws a \<^verbatim>\<open>TypeError\<close>), and a timer of 5000 ms set when a run is
  recorded and the status is \<^verbatim>\<open>completed\<close>.
\<close>

definition updateMessages :: "world \<Rightarrow> app_state \<Rightarrow> unit outcome \<times> app_state" where
  "updateMessages w s =
     (let s1 = s\<lparr>requests := requests s @ [PostChatList (threadId s) (runId s)]\<rparr> in
      case post_chat_list w (threadId s) (runId s) of
        None \<Rightarrow> (Throws AxiosError, s1)
      | Some data \<Rightarrow>
          let s2 = s1\<lparr>messages := rev (lr_messages data)\<rparr>;
              (invoked, s3) =
                (if lr_status data = Some ''requires_action'' then
                   (case lr_run data of
                      None \<Rightarrow> (Throws TypeError, s2)
                    | Some r \<Rightarrow> invokeChatbotFunctions w r s2)
                 else (Returns (), s2))
          in (case invoked of
                Throws e \<Rightarrow> (Throws e, s3)
              | Returns _ \<Rightarrow>
                  if truthy (runId s) \<and> lr_status data = Some ''completed''
                  then (Returns (), s3\<lparr>timeouts := timeouts s3 @ [(5000, ClearRunId)]\<rparr>)
                  else (Returns (), s3)))"

text \<open>A timer that fires runs its callback: \<^verbatim>\<open>setRunId(undefined)\<close>.\<close>

fun fire :: "timer_callback \<Rightarrow> app_state \<Rightarrow> app_state" where
  "fire ClearRunId s = s\<lparr>runId := None\<rparr>"

text \<open>
  \<^verbatim>\<open>createThread\<close>: without a thread id in memory, a non-empty id in the local storage
  is taken over and the messages are fetched; with a thread id nothing more happens;
  otherwise \<^verbatim>\<open>/chat/new\<close> is asked for an id, which is kept and stored.
\<close>

definition createThread :: "world \<Rightarrow> app_state \<Rightarrow> unit outcome \<times> app_state" where
  "createThread w s =
     (let (restored, s1) =
            (if threadId s = None then
               (let storedThreadId = localStorage s ''threadId'' in
                if truthy storedThreadId
                then updateMessages w (s\<lparr>threadId := storedThreadId\<rparr>)
                else (Returns (), s))
             else (Returns (), s))
      in case restored of
           Throws e \<Rightarrow> (Throws e, s1)
         | Returns _ \<Rightarrow>
             if threadId s1 \<noteq> None then (Returns (), s1)
             else
               let s2 = s1\<lparr>requests := requests s1 @ [PostChatNew]\<rparr> in
               (case post_chat_new w of
                  None \<Rightarrow> (Throws AxiosError, s2)
                | Some data_threadId \<Rightarrow>
                    (Returns (),
                     s2\<lparr>threadId := Some data_threadId,
                        localStorage := (localStorage s2)(''threadId'' \<mapsto> data_threadId)\<rparr>)))"

subsection \<open>\<^verbatim>\<open>sendMessage\<close> of the relay backend\<close>

text \<open>The record written to the collection \<^verbatim>\<open>messages\<close>.\<close>

record db_message =
  dm_addedDate :: nat
  dm_threadId :: string
  dm_runId :: string
  dm_text :: string
  dm_ip :: string

text \<open>The remote calls of the backend's \<^verbatim>\<open>sendMessage\<close>, with their arguments.\<close>

datatype api_call =
    ThreadsMessagesCreate string string
  | ThreadsRunsCreate string string
  | MessagesInsertOne db_message

text \<open>
  What the backend depends on: the environment variable \<^verbatim>\<open>ASSISTANT_ID\<close>, the answers of
  the Assistants API and of the document store (\<open>False\<close> or \<open>None\<close> for a call that
  rejects), and the clock read by \<^verbatim>\<open>new Date()\<close>.
\<close>

record backend =
  ASSISTANT_ID :: string
  messages_create :: "string \<Rightarrow> string \<Rightarrow> bool"
  runs_create :: "string \<Rightarrow> string \<Rightarrow> run option"
  insertOne :: "db_message \<Rightarrow> bool"
  new_Date :: nat

text \<open>
  The function returns its outcome and the remote calls it has issued, in the order in
  which it issued them; each \<^verbatim>\<open>await\<close> ends before the next statement starts.
\<close>

definition backend_sendMessage ::
  "backend \<Rightarrow> string \<Rightarrow> string \<Rightarrow> string \<Rightarrow> run outcome \<times> api_call list" where
  "backend_sendMessage b thread text clientIp =
     (let calls1 = [ThreadsMessagesCreate thread text] in
      if \<not> messages_create b thread text then (Throws APIError, calls1)
      else
        let calls2 = calls1 @ [ThreadsRunsCreate thread (ASSISTANT_ID b)] in
        case runs_create b thread (ASSISTANT_ID b) of
          None \<Rightarrow> (Throws APIError, calls2)
        | Some r \<Rightarrow>
            let doc = \<lparr> dm_addedDate = new_Date b, dm_threadId = thread, dm_runId = run_id r,
                        dm_text = text, dm_ip = clientIp \<rparr>;
                calls3 = calls2 @ [MessagesInsertOne doc]
            in if insertOne b doc then (Returns r, calls3) else (Throws MongoError, calls3))"

subsection \<open>What a call leaves untouched\<close>

text \<open>Between two states, every field but the three of the map agrees.\<close>

definition only_map_changed :: "app_state \<Rightarrow> app_state \<Rightarrow> bool" where
  "only_map_changed s s' =
     (threadId s' = threadId s \<and> runId s' = runId s \<and> messages s' = messages s \<and>
      message s' = message s \<and> chatbotVisible s' = chatbotVisible s \<and>
      showInfo s' = showInfo s \<and> recording s' = recording s \<and>
      localStorage s' = localStorage s \<and>
      requests s' = requests s \<and> timeouts s' = timeouts s)"

subsection \<open>Concrete conversations\<close>

text \<open>
  The scenario of the specification (``Show me Paris''), a tool call that names a function
  the client does not have, and a tool call that is not a function call.
\<close>

definition paris_arguments :: string where
  "paris_arguments = ''{\"longitude\":2.35,\"latitude\":48.85,\"zoom\":12}''"

definition paris_call :: tool_call where
  "paris_call = \<lparr> tc_id = ''call_1'', tc_type = ''function'', fn_name = ''updateMap'',
                  fn_arguments = paris_arguments \<rparr>"

definition weather_call :: tool_call where
  "weather_call = \<lparr> tc_id = ''call_2'', tc_type = ''function'', fn_name = ''getWeather'',
                    fn_arguments = ''{}'' \<rparr>"

definition retrieval_call :: tool_call where
  "retrieval_call = \<lparr> tc_id = ''call_3'', tc_type = ''retrieval'', fn_name = [],
                      fn_arguments = [] \<rparr>"

text \<open>\<^verbatim>\<open>JSON.parse\<close> on the two argument texts of these calls.\<close>

definition example_parse :: "string \<Rightarrow> jsval option" where
  "example_parse text =
     (if text = paris_arguments
      then Some (JObj [(''longitude'', JNum 2.35), (''latitude'', JNum 48.85),
                       (''zoom'', JNum 12)])
      else if text = ''{}'' then Some (JObj [])
      else None)"

text \<open>
  \<^verbatim>\<open>String.prototype.trim\<close> on the texts of these conversations: the one text typed with
  a space at either end, and texts that have no white space at their ends.
\<close>

definition example_trim :: "string \<Rightarrow> string" where
  "example_trim text = (if text = '' Show me Paris '' then ''Show me Paris'' else text)"

definition example_prototype :: "string \<Rightarrow> (jsval \<Rightarrow> jsval outcome) option" where
  "example_prototype name =
     (if name = ''toString'' then Some (\<lambda>toolArgs. Returns (JStr ''[object Object]''))
      else None)"

definition run_requiring :: "tool_call list \<Rightarrow> run" where
  "run_requiring calls =
     \<lparr> run_id = ''run_1'', run_status = ''requires_action'',
       run_required_action = Some \<lparr> ra_type = ''submit_tool_outputs'', tool_calls = calls \<rparr> \<rparr>"

text \<open>A relay that accepts every request and answers \<^verbatim>\<open>/chat/list\<close> with the given body.\<close>

definition example_world :: "list_response \<Rightarrow> world" where
  "example_world data =
     \<lparr> post_chat_new = Some ''thread_1'',
       post_chat_send = (\<lambda>thread text. Some ''run_1''),
       post_chat_list = (\<lambda>thread r. Some data),
       post_chat_submit = (\<lambda>thread r outputs. True),
       JSON_parse = example_parse,
       Object_prototype = example_prototype,
       String_trim = example_trim \<rparr>"

text \<open>A relay that cannot be reached.\<close>

definition offline_world :: world where
  "offline_world =
     \<lparr> post_chat_new = None,
       post_chat_send = (\<lambda>thread text. None),
       post_chat_list = (\<lambda>thread r. None),
       post_chat_submit = (\<lambda>thread r outputs. False),
       JSON_parse = example_parse,
       Object_prototype = example_prototype,
       String_trim = example_trim \<rparr>"

definition no_messages :: "string option \<Rightarrow> list_response" where
  "no_messages st = \<lparr> lr_messages = [], lr_status = st, lr_run = None \<rparr>"

definition requiring :: "tool_call list \<Rightarrow> list_response" where
  "requiring calls =
     \<lparr> lr_messages = [], lr_status = Some ''requires_action'',
       lr_run = Some (run_requiring calls) \<rparr>"

text \<open>A client that holds the thread \<^verbatim>\<open>thread_1\<close>, without and with a run.\<close>

definition idle_state :: app_state where
  "idle_state =
     (initial_state [''threadId'' \<mapsto> ''thread_1''])\<lparr>threadId := Some ''thread_1''\<rparr>"

definition running_state :: app_state where
  "running_state = idle_state\<lparr>runId := Some ''run_1''\<rparr>"

definition typing_state :: app_state where
  "typing_state = idle_state\<lparr>message := '' Show me Paris ''\<rparr>"

text \<open>The same client of the later revision, recording audio with the text still typed.\<close>

definition recording_state :: app_state where
  "recording_state = typing_state\<lparr>recording := True\<rparr>"

text \<open>A call of \<^verbatim>\<open>updateMap\<close> whose arguments are the JSON text \<^verbatim>\<open>null\<close>.\<close>

definition null_call :: tool_call where
  "null_call = \<lparr> tc_id = ''call_4'', tc_type = ''function'', fn_name = ''updateMap'',
                 fn_arguments = ''null'' \<rparr>"

definition null_world :: world where
  "null_world =
     (example_world (requiring [null_call]))
       \<lparr>JSON_parse := (\<lambda>text. if text = ''null'' then Some JNull else example_parse text)\<rparr>"

definition first_message :: thread_message where
  "first_message = \<lparr> msg_id = ''msg_1'', msg_role = ''user'', created_at = 1700000000,
                     msg_content = [MessageContentText ''Show me Paris''] \<rparr>"

definition second_message :: thread_message where
  "second_message = \<lparr> msg_id = ''msg_2'', msg_role = ''assistant'', created_at = 1700000007,
                      msg_content = [MessageContentText ''Here is Paris.''] \<rparr>"

definition snapshot :: "thread_message list \<Rightarrow> list_response" where
  "snapshot ms = \<lparr> lr_messages = ms, lr_status = None, lr_run = None \<rparr>"

text \<open>A backend whose message creation succeeds and whose run creation succeeds or not.\<close>

definition example_backend :: "bool \<Rightarrow> backend" where
  "example_backend runs_ok =
     \<lparr> ASSISTANT_ID = ''asst_1'',
       messages_create = (\<lambda>thread text. True),
       runs_create = (\<lambda>thread assistant.
          if runs_ok then Some \<lparr> run_id = ''run_1'', run_status = ''queued'',
                                  run_required_action = None \<rparr>
          else None),
       insertOne = (\<lambda>doc. True),
       new_Date = 1700000000 \<rparr>"

text \<open>A backend whose calls to the Assistants API all fail.\<close>

definition unreachable_backend :: backend where
  "unreachable_backend =
     \<lparr> ASSISTANT_ID = ''asst_1'',
       messages_create = (\<lambda>thread text. False),
       runs_create = (\<lambda>thread assistant. None),
       insertOne = (\<lambda>doc. True),
       new_Date = 1700000000 \<rparr>"

section \<open>Properties\<close>

subsection \<open>What the tool calls leave untouched\<close>

lemmas example_defs =
  paris_arguments_def paris_call_def weather_call_def retrieval_call_def example_parse_def
  example_prototype_def run_requiring_def example_world_def offline_world_def no_messages_def
  requiring_def idle_state_def running_state_def typing_state_def first_message_def
  recording_state_def null_call_def null_world_def example_trim_def
  second_message_def snapshot_def example_backend_def initial_state_def

lemma only_map_changed_refl: "only_map_changed s s"
  by (simp add: only_map_changed_def)

lemma only_map_changed_trans:
  "only_map_changed s s' \<Longrightarrow> only_map_changed s' s'' \<Longrightarrow> only_map_changed s s''"
  by (simp add: only_map_changed_def)

lemma call_chatbotFunction_frame:
  "call_chatbotFunction w functionName toolArgs s = (res, s') \<Longrightarrow> only_map_changed s s'"
  by (auto simp: call_chatbotFunction_def chatbotFunctions_def updateMap_def addMarker_def
        only_map_changed_def split: if_splits option.splits)

lemma tool_calls_loop_frame:
  "tool_calls_loop w calls outputs s = (res, s') \<Longrightarrow> only_map_changed s s'"
proof (induction calls arbitrary: outputs s)
  case Nil
  then show ?case by (simp add: only_map_changed_refl)
next
  case (Cons toolCall rest)
  show ?case
  proof (cases "tc_type toolCall = ''function''")
    case False
    with Cons show ?thesis by simp
  next
    case isfn: True
    show ?thesis
    proof (cases "JSON_parse w (fn_arguments toolCall)")
      case None
      with isfn Cons.prems show ?thesis by (simp add: only_map_changed_refl)
    next
      case (Some toolArgs)
      obtain r1 s1 where c: "call_chatbotFunction w (fn_name toolCall) toolArgs s = (r1, s1)"
        by (cases "call_chatbotFunction w (fn_name toolCall) toolArgs s")
      have f1: "only_map_changed s s1" using c by (rule call_chatbotFunction_frame)
      show ?thesis
      proof (cases r1)
        case (Throws e)
        with isfn Some c Cons.prems f1 show ?thesis by simp
      next
        case (Returns functionOutput)
        with isfn Some c Cons.prems
        have "tool_calls_loop w rest
                (outputs @ [\<lparr> tool_call_id = tc_id toolCall, tc_output = functionOutput \<rparr>]) s1
              = (res, s')" by simp
        then have "only_map_changed s1 s'" by (rule Cons.IH)
        with f1 show ?thesis by (rule only_map_changed_trans)
      qed
    qed
  qed
qed

text \<open>The results of a loop that ends: one for each function call, in order, under its id.\<close>

lemma tool_calls_loop_ids:
  "tool_calls_loop w calls outputs s = (Returns outputs', s') \<Longrightarrow>
   map tool_call_id outputs' =
     map tool_call_id outputs @ map tc_id (filter (\<lambda>c. tc_type c = ''function'') calls)"
proof (induction calls arbitrary: outputs s)
  case Nil
  then show ?case by simp
next
  case (Cons toolCall rest)
  then show ?case
    by (auto split: if_splits option.splits outcome.splits prod.splits)
qed

text \<open>The loop over a batch in two parts: the second part runs only if the first returns.\<close>

lemma tool_calls_loop_append:
  "tool_calls_loop w (pre @ post) outputs s =
     (case tool_calls_loop w pre outputs s of
        (Returns outputs1, s1) \<Rightarrow> tool_calls_loop w post outputs1 s1
      | (Throws e, s1) \<Rightarrow> (Throws e, s1))"
  by (induction pre arbitrary: outputs s)
     (auto split: if_splits option.splits outcome.splits prod.splits)

text \<open>
  A batch of function calls that name the two handlers, with arguments that parse to an
  object, is dispatched to its end.
\<close>

lemma tool_calls_loop_registered_returns:
  assumes "\<forall>c \<in> set calls.
             tc_type c = ''function'' \<and>
             (fn_name c = ''updateMap'' \<or> fn_name c = ''addMarker'') \<and>
             (\<exists>props. JSON_parse w (fn_arguments c) = Some (JObj props))"
  shows "\<exists>outputs' s'. tool_calls_loop w calls outputs s = (Returns outputs', s')"
  using assms
proof (induction calls arbitrary: outputs s)
  case Nil
  then show ?case by simp
next
  case (Cons toolCall rest)
  from Cons.prems obtain props where
    p: "tc_type toolCall = ''function''"
       "fn_name toolCall = ''updateMap'' \<or> fn_name toolCall = ''addMarker''"
       "JSON_parse w (fn_arguments toolCall) = Some (JObj props)"
    by auto
  from p(2) obtain out s1 where
    c: "call_chatbotFunction w (fn_name toolCall) (JObj props) s = (Returns out, s1)"
    by (auto simp: call_chatbotFunction_def chatbotFunctions_def updateMap_def addMarker_def)
  from Cons.prems have "\<forall>c \<in> set rest.
             tc_type c = ''function'' \<and>
             (fn_name c = ''updateMap'' \<or> fn_name c = ''addMarker'') \<and>
             (\<exists>props. JSON_parse w (fn_arguments c) = Some (JObj props))"
    by simp
  from Cons.IH [OF this] p c show ?case by simp
qed

text \<open>
  A name that is no own property of the registry is looked up in the prototype chain, and
  what is found there is called: no error, and a result that no handler produced.
\<close>

lemma inherited_name_is_called:
  "call_chatbotFunction (example_world data) ''toString'' (JObj []) s =
     (Returns (JStr ''[object Object]''), s)"
  by (simp add: call_chatbotFunction_def chatbotFunctions_def example_defs)

lemma invokeChatbotFunctions_frame:
  "invokeChatbotFunctions w r s = (res, s') \<Longrightarrow>
   threadId s' = threadId s \<and> runId s' = runId s \<and> messages s' = messages s \<and>
   message s' = message s \<and> localStorage s' = localStorage s \<and> timeouts s' = timeouts s"
  by (auto simp: invokeChatbotFunctions_def Let_def only_map_changed_def
      split: option.splits if_splits prod.splits outcome.splits
      dest!: tool_calls_loop_frame)

lemma invokeChatbotFunctions_requests:
  "invokeChatbotFunctions w r s = (res, s') \<Longrightarrow>
   requests s' = requests s \<or>
   (\<exists>outputs. requests s' = requests s @ [PostChatSubmit (threadId s) (runId s) outputs])"
  by (auto simp: invokeChatbotFunctions_def Let_def only_map_changed_def
      split: option.splits if_splits prod.splits outcome.splits
      dest!: tool_calls_loop_frame)

lemma updateMessages_frame:
  "updateMessages w s = (res, s') \<Longrightarrow>
   threadId s' = threadId s \<and> runId s' = runId s \<and> message s' = message s \<and>
   localStorage s' = localStorage s"
  by (auto simp: updateMessages_def Let_def
      split: option.splits if_splits prod.splits outcome.splits
      dest!: invokeChatbotFunctions_frame)

lemma updateMessages_requests:
  "updateMessages w s = (res, s') \<Longrightarrow>
   \<exists>rest. requests s' = requests s @ PostChatList (threadId s) (runId s) # rest \<and>
          PostChatNew \<notin> set rest"
  by (auto simp: updateMessages_def Let_def
      split: option.splits if_splits prod.splits outcome.splits
      dest!: invokeChatbotFunctions_requests)

lemma updateMessages_messages:
  assumes "post_chat_list w (threadId s) (runId s) = Some data"
  shows "messages (snd (updateMessages w s)) = rev (lr_messages data)"
  using assms
  by (auto simp: updateMessages_def Let_def
      split: option.splits if_splits prod.splits outcome.splits
      dest!: invokeChatbotFunctions_frame)

lemma updateMessages_timeouts:
  assumes "post_chat_list w (threadId s) (runId s) = Some data"
    and "lr_status data \<noteq> Some ''completed''"
  shows "timeouts (snd (updateMessages w s)) = timeouts s"
  using assms
  by (auto simp: updateMessages_def Let_def
      split: option.splits if_splits prod.splits outcome.splits
      dest!: invokeChatbotFunctions_frame)

text \<open>The poll of the scenario, evaluated: the map moves and the result is submitted.\<close>

lemma updateMessages_paris:
  "updateMessages (example_world (requiring [paris_call])) running_state =
     (Returns (),
      running_state
        \<lparr>requests :=
           [PostChatList (Some ''thread_1'') (Some ''run_1''),
            PostChatSubmit (Some ''thread_1'') (Some ''run_1'')
              [\<lparr> tool_call_id = ''call_1'', tc_output = JStr ''Map updated'' \<rparr>]],
         mapCenter := \<lparr> latitude = JNum 48.85, longitude = JNum 2.35 \<rparr>,
         mapZoom := JNum 12\<rparr>)"
  by (simp add: updateMessages_def invokeChatbotFunctions_def call_chatbotFunction_def
        chatbotFunctions_def updateMap_def example_defs)

subsection \<open>Submitting a turn while a run is active\<close>

text \<open>
  Claim C1, as the specification states it: while a run is active, a second call of
  \<^verbatim>\<open>sendMessage\<close> is rejected with an error that the caller can observe. The code
  returns from the call without an error: with the run \<^verbatim>\<open>run_1\<close> recorded, the call
  returns normally and the state is the one it started from.
\<close>

theorem sendMessage_active_run_no_error:
  "sendMessage (example_world (no_messages None)) ''Show me Rome'' running_state =
     (Returns (), running_state)"
  by (simp add: sendMessage_def example_defs)

text \<open>
  Claim C1, amended: while a run is recorded, \<^verbatim>\<open>sendMessage\<close> returns normally, issues
  no request and leaves the state as it was. A call made without a run, whose request
  the relay accepts, records the run id of the response; a further call, whatever its
  text and whatever the relay would answer, is then ignored in this way, so that of two
  calls exactly one reaches the relay.
\<close>

theorem sendMessage_active_run_ignored:
  "(runId s \<noteq> None \<longrightarrow> sendMessage w msg s = (Returns (), s)) \<and>
   (runId s = None \<and> post_chat_send w (threadId s) msg = Some r \<longrightarrow>
      sendMessage w msg s =
        (Returns (),
         s\<lparr>requests := requests s @ [PostChatSend (threadId s) msg], runId := Some r\<rparr>) \<and>
      sendMessage w' msg' (snd (sendMessage w msg s)) =
        (Returns (), snd (sendMessage w msg s)))"
  by (simp add: sendMessage_def)

text \<open>Both cases of the amended claim C1 on the thread \<^verbatim>\<open>thread_1\<close>.\<close>

theorem sendMessage_active_run_ignored_witness:
  "runId running_state \<noteq> None \<and>
   sendMessage offline_world ''Show me Rome'' running_state = (Returns (), running_state) \<and>
   (runId idle_state = None \<and>
    post_chat_send (example_world (no_messages None)) (threadId idle_state) ''Show me Paris''
      = Some ''run_1'') \<and>
   sendMessage (example_world (no_messages None)) ''Show me Paris'' idle_state =
     (Returns (),
      idle_state\<lparr>requests := [PostChatSend (Some ''thread_1'') ''Show me Paris''],
                 runId := Some ''run_1''\<rparr>) \<and>
   sendMessage offline_world ''Show me Rome''
       (snd (sendMessage (example_world (no_messages None)) ''Show me Paris'' idle_state)) =
     (Returns (),
      snd (sendMessage (example_world (no_messages None)) ''Show me Paris'' idle_state))"
proof -
  let ?w = "example_world (no_messages None)"
  have running: "runId running_state \<noteq> None"
    by (simp add: example_defs)
  have idle: "runId idle_state = None \<and>
              post_chat_send ?w (threadId idle_state) ''Show me Paris'' = Some ''run_1''"
    by (simp add: example_defs)
  from running
    sendMessage_active_run_ignored
      [where s = running_state and w = offline_world and msg = "''Show me Rome''"]
  have ignored: "sendMessage offline_world ''Show me Rome'' running_state =
                   (Returns (), running_state)"
    by blast
  from idle
    sendMessage_active_run_ignored
      [where s = idle_state and w = ?w and msg = "''Show me Paris''" and r = "''run_1''"
         and w' = offline_world and msg' = "''Show me Rome''"]
  have accepted:
    "sendMessage ?w ''Show me Paris'' idle_state =
       (Returns (),
        idle_state\<lparr>requests := requests idle_state @
                                  [PostChatSend (threadId idle_state) ''Show me Paris''],
                   runId := Some ''run_1''\<rparr>) \<and>
     sendMessage offline_world ''Show me Rome'' (snd (sendMessage ?w ''Show me Paris'' idle_state)) =
       (Returns (), snd (sendMessage ?w ''Show me Paris'' idle_state))"
    by blast
  have state: "idle_state\<lparr>requests := requests idle_state @
                                  [PostChatSend (threadId idle_state) ''Show me Paris''],
                   runId := Some ''run_1''\<rparr> =
        idle_state\<lparr>requests := [PostChatSend (Some ''thread_1'') ''Show me Paris''],
                   runId := Some ''run_1''\<rparr>"
    by (simp add: idle_state_def initial_state_def)
  from accepted have first:
    "sendMessage ?w ''Show me Paris'' idle_state =
       (Returns (),
        idle_state\<lparr>requests := [PostChatSend (Some ''thread_1'') ''Show me Paris''],
                   runId := Some ''run_1''\<rparr>)"
    unfolding state by (rule conjunct1)
  from accepted have second:
    "sendMessage offline_world ''Show me Rome'' (snd (sendMessage ?w ''Show me Paris'' idle_state)) =
       (Returns (), snd (sendMessage ?w ''Show me Paris'' idle_state))"
    by (rule conjunct2)
  from running idle ignored first second show ?thesis by blast
qed

subsection \<open>Polling and dispatch\<close>

text \<open>
  Claim C2, as the specification states it: a poll that returns \<^verbatim>\<open>requires_action\<close>
  does not run the tool handlers. In the code the poll of the scenario moves the map to
  Paris and submits the handler's result, all within the one call of
  \<^verbatim>\<open>updateMessages\<close>.
\<close>

theorem updateMessages_runs_handlers:
  "mapCenter (snd (updateMessages (example_world (requiring [paris_call])) running_state)) =
     \<lparr> latitude = JNum 48.85, longitude = JNum 2.35 \<rparr> \<and>
   mapCenter running_state = \<lparr> latitude = JNum 51.505, longitude = JNum (- 0.09) \<rparr> \<and>
   requests (snd (updateMessages (example_world (requiring [paris_call])) running_state)) =
     [PostChatList (Some ''thread_1'') (Some ''run_1''),
      PostChatSubmit (Some ''thread_1'') (Some ''run_1'')
        [\<lparr> tool_call_id = ''call_1'', tc_output = JStr ''Map updated'' \<rparr>]]"
  by (simp add: updateMessages_paris) (simp add: example_defs)

text \<open>
  Claim C2, amended: a poll whose status is \<^verbatim>\<open>requires_action\<close> continues, once the
  request is recorded and the snapshot stored, as \<^verbatim>\<open>invokeChatbotFunctions\<close> on the run
  of the response: the handlers run and their results are submitted as part of the poll.
  A poll with any other status returns with the map as it was and with no request but
  its own.
\<close>

theorem updateMessages_dispatches_on_requires_action:
  assumes "post_chat_list w (threadId s) (runId s) = Some data"
  shows "(lr_status data = Some ''requires_action'' \<and> lr_run data = Some r \<longrightarrow>
            updateMessages w s =
              invokeChatbotFunctions w r
                (s\<lparr>requests := requests s @ [PostChatList (threadId s) (runId s)],
                   messages := rev (lr_messages data)\<rparr>)) \<and>
         (lr_status data \<noteq> Some ''requires_action'' \<longrightarrow>
            fst (updateMessages w s) = Returns () \<and>
            mapCenter (snd (updateMessages w s)) = mapCenter s \<and>
            mapZoom (snd (updateMessages w s)) = mapZoom s \<and>
            mapMarker (snd (updateMessages w s)) = mapMarker s \<and>
            requests (snd (updateMessages w s)) =
              requests s @ [PostChatList (threadId s) (runId s)])"
proof (intro conjI impI)
  assume a: "lr_status data = Some ''requires_action'' \<and> lr_run data = Some r"
  let ?s2 = "s\<lparr>requests := requests s @ [PostChatList (threadId s) (runId s)],
                messages := rev (lr_messages data)\<rparr>"
  obtain res s3 where inv: "invokeChatbotFunctions w r ?s2 = (res, s3)"
    by (cases "invokeChatbotFunctions w r ?s2")
  show "updateMessages w s = invokeChatbotFunctions w r ?s2"
    using assms a inv by (cases res) (simp_all add: updateMessages_def)
next
  assume "lr_status data \<noteq> Some ''requires_action''"
  then show "fst (updateMessages w s) = Returns ()"
    and "mapCenter (snd (updateMessages w s)) = mapCenter s"
    and "mapZoom (snd (updateMessages w s)) = mapZoom s"
    and "mapMarker (snd (updateMessages w s)) = mapMarker s"
    and "requests (snd (updateMessages w s)) = requests s @ [PostChatList (threadId s) (runId s)]"
    using assms by (simp_all add: updateMessages_def Let_def)
qed

text \<open>The amended claim C2 on the poll of the scenario and on a poll of a run in progress.\<close>

theorem updateMessages_dispatches_on_requires_action_witness:
  "post_chat_list (example_world (requiring [paris_call]))
      (threadId running_state) (runId running_state) = Some (requiring [paris_call]) \<and>
   (lr_status (requiring [paris_call]) = Some ''requires_action'' \<and>
    lr_run (requiring [paris_call]) = Some (run_requiring [paris_call])) \<and>
   updateMessages (example_world (requiring [paris_call])) running_state =
     invokeChatbotFunctions (example_world (requiring [paris_call])) (run_requiring [paris_call])
       (running_state\<lparr>requests := [PostChatList (Some ''thread_1'') (Some ''run_1'')]\<rparr>) \<and>
   post_chat_list (example_world (no_messages (Some ''in_progress'')))
      (threadId running_state) (runId running_state) = Some (no_messages (Some ''in_progress'')) \<and>
   lr_status (no_messages (Some ''in_progress'')) \<noteq> Some ''requires_action'' \<and>
   mapCenter (snd (updateMessages (example_world (no_messages (Some ''in_progress'')))
                    running_state)) = mapCenter running_state \<and>
   requests (snd (updateMessages (example_world (no_messages (Some ''in_progress'')))
                    running_state)) = [PostChatList (Some ''thread_1'') (Some ''run_1'')]"
  using updateMessages_dispatches_on_requires_action
          [where w = "example_world (requiring [paris_call])" and s = running_state
             and data = "requiring [paris_call]" and r = "run_requiring [paris_call]"]
        updateMessages_dispatches_on_requires_action
          [where w = "example_world (no_messages (Some ''in_progress''))" and s = running_state
             and data = "no_messages (Some ''in_progress'')"]
  by (simp add: example_defs)

subsection \<open>A tool call that names an unknown function\<close>

text \<open>
  Claim C3, as the specification states it: a batch that names a function outside the
  registry is rejected with an error of its own, not through the failure of the dynamic
  lookup. The code has no check of the name: the registry has no property
  \<^verbatim>\<open>getWeather\<close>, the prototype chain has none either, and the error is the
  \<^verbatim>\<open>TypeError\<close> of calling \<^verbatim>\<open>undefined\<close>.
\<close>

theorem unknown_function_is_type_error:
  "chatbotFunctions ''getWeather'' = None \<and>
   Object_prototype (example_world (requiring [weather_call])) ''getWeather'' = None \<and>
   invokeChatbotFunctions (example_world (requiring [weather_call]))
       (run_requiring [weather_call]) running_state =
     (Throws TypeError, running_state)"
  by (simp add: invokeChatbotFunctions_def call_chatbotFunction_def chatbotFunctions_def
        example_defs)

text \<open>
  Claim C3, amended: when the calls before it have been dispatched, a function call whose
  arguments parse and whose name is neither an own property of the registry nor found in
  its prototype chain makes \<^verbatim>\<open>invokeChatbotFunctions\<close> throw the \<^verbatim>\<open>TypeError\<close> of the
  failed lookup. Nothing is submitted; the effects of the handlers that ran before stay.
\<close>

theorem invokeChatbotFunctions_unknown_function:
  assumes "run_required_action r = Some ra"
    and "ra_type ra = ''submit_tool_outputs''"
    and "tool_calls ra = pre @ toolCall # post"
    and "tool_calls_loop w pre [] s = (Returns outputs, s1)"
    and "tc_type toolCall = ''function''"
    and "JSON_parse w (fn_arguments toolCall) = Some toolArgs"
    and "fn_name toolCall \<noteq> ''updateMap''" and "fn_name toolCall \<noteq> ''addMarker''"
    and "Object_prototype w (fn_name toolCall) = None"
  shows "invokeChatbotFunctions w r s = (Throws TypeError, s1) \<and> requests s1 = requests s"
proof -
  have step: "tool_calls_loop w (toolCall # post) outputs s1 = (Throws TypeError, s1)"
    using assms(5-9) by (simp add: call_chatbotFunction_def chatbotFunctions_def)
  have "tool_calls_loop w (tool_calls ra) [] s = (Throws TypeError, s1)"
    using assms(3,4) step by (simp add: tool_calls_loop_append)
  then have "invokeChatbotFunctions w r s = (Throws TypeError, s1)"
    using assms(1,2) by (simp add: invokeChatbotFunctions_def)
  moreover have "requests s1 = requests s"
    using tool_calls_loop_frame [OF assms(4)] by (simp add: only_map_changed_def)
  ultimately show ?thesis by simp
qed

text \<open>
  The amended claim C3 on a batch of two: the map has moved to Paris when the second call
  fails.
\<close>

theorem invokeChatbotFunctions_unknown_function_witness:
  "run_required_action (run_requiring [paris_call, weather_call]) =
     Some \<lparr> ra_type = ''submit_tool_outputs'', tool_calls = [paris_call, weather_call] \<rparr> \<and>
   tool_calls_loop (example_world (requiring [])) [paris_call] [] running_state =
     (Returns [\<lparr> tool_call_id = ''call_1'', tc_output = JStr ''Map updated'' \<rparr>],
      running_state\<lparr>mapCenter := \<lparr> latitude = JNum 48.85, longitude = JNum 2.35 \<rparr>,
                    mapZoom := JNum 12\<rparr>) \<and>
   tc_type weather_call = ''function'' \<and>
   JSON_parse (example_world (requiring [])) (fn_arguments weather_call) = Some (JObj []) \<and>
   fn_name weather_call \<noteq> ''updateMap'' \<and> fn_name weather_call \<noteq> ''addMarker'' \<and>
   Object_prototype (example_world (requiring [])) (fn_name weather_call) = None \<and>
   invokeChatbotFunctions (example_world (requiring []))
       (run_requiring [paris_call, weather_call]) running_state =
     (Throws TypeError,
      running_state\<lparr>mapCenter := \<lparr> latitude = JNum 48.85, longitude = JNum 2.35 \<rparr>,
                    mapZoom := JNum 12\<rparr>)"
proof -
  let ?w = "example_world (requiring [])"
  let ?ra = "\<lparr> ra_type = ''submit_tool_outputs'', tool_calls = [paris_call, weather_call] \<rparr>"
  let ?s1 = "running_state\<lparr>mapCenter := \<lparr> latitude = JNum 48.85, longitude = JNum 2.35 \<rparr>,
                           mapZoom := JNum 12\<rparr>"
  have h1: "run_required_action (run_requiring [paris_call, weather_call]) = Some ?ra"
    by (simp add: run_requiring_def)
  have h2: "ra_type ?ra = ''submit_tool_outputs''" by simp
  have h3: "tool_calls ?ra = [paris_call] @ weather_call # []" by simp
  have h4: "tool_calls_loop ?w [paris_call] [] running_state =
              (Returns [\<lparr> tool_call_id = ''call_1'', tc_output = JStr ''Map updated'' \<rparr>], ?s1)"
    by (simp add: call_chatbotFunction_def chatbotFunctions_def updateMap_def example_defs)
  have h5: "tc_type weather_call = ''function''" by (simp add: weather_call_def)
  have h6: "JSON_parse ?w (fn_arguments weather_call) = Some (JObj [])"
    by (simp add: example_defs)
  have h7: "fn_name weather_call \<noteq> ''updateMap''" by (simp add: weather_call_def)
  have h8: "fn_name weather_call \<noteq> ''addMarker''" by (simp add: weather_call_def)
  have h9: "Object_prototype ?w (fn_name weather_call) = None" by (simp add: example_defs)
  from invokeChatbotFunctions_unknown_function [OF h1 h2 h3 h4 h5 h6 h7 h8 h9]
  have "invokeChatbotFunctions ?w (run_requiring [paris_call, weather_call]) running_state =
          (Throws TypeError, ?s1)" by simp
  with h1 h4 h5 h6 h7 h8 h9 show ?thesis by simp
qed

subsection \<open>The results of a dispatched batch\<close>

text \<open>
  Claim C4, as the specification states it: dispatching N pending invocations produces
  exactly N results with the invocations' ids. In the code, a batch of two whose second
  invocation names an unknown function produces no result at all: the dispatch throws
  after the first handler has run, and nothing is submitted. A batch of two whose first
  entry is not of type \<^verbatim>\<open>function\<close> is dispatched to its end with one result.
\<close>

theorem dispatch_results_not_one_per_invocation:
  "invokeChatbotFunctions (example_world (requiring []))
       (run_requiring [paris_call, weather_call]) running_state =
     (Throws TypeError,
      running_state\<lparr>mapCenter := \<lparr> latitude = JNum 48.85, longitude = JNum 2.35 \<rparr>,
                    mapZoom := JNum 12\<rparr>) \<and>
   invokeChatbotFunctions (example_world (requiring []))
       (run_requiring [retrieval_call, paris_call]) running_state =
     (Returns (),
      running_state
        \<lparr>mapCenter := \<lparr> latitude = JNum 48.85, longitude = JNum 2.35 \<rparr>,
         mapZoom := JNum 12,
         requests :=
           [PostChatSubmit (Some ''thread_1'') (Some ''run_1'')
              [\<lparr> tool_call_id = ''call_1'', tc_output = JStr ''Map updated'' \<rparr>]]\<rparr>)"
  by (simp add: invokeChatbotFunctions_def call_chatbotFunction_def chatbotFunctions_def
        updateMap_def example_defs)

text \<open>
  Claim C4, amended: whenever \<^verbatim>\<open>invokeChatbotFunctions\<close> returns on a run that asks for
  tool outputs, it has submitted one request whose results are, in order, one for each
  invocation of type \<^verbatim>\<open>function\<close>, each under the id of its invocation; if all N
  invocations are of that type, these are exactly N results and the ids of the results
  are the ids of the invocations. It does return when every invocation is of type
  \<^verbatim>\<open>function\<close>, names \<^verbatim>\<open>updateMap\<close> or \<^verbatim>\<open>addMarker\<close>, carries arguments that parse
  to an object, and the relay accepts the submission.
\<close>

theorem invokeChatbotFunctions_outputs_match:
  assumes "run_required_action r = Some ra"
    and "ra_type ra = ''submit_tool_outputs''"
  shows "(invokeChatbotFunctions w r s = (Returns (), s') \<longrightarrow>
            (\<exists>outputs.
               requests s' = requests s @ [PostChatSubmit (threadId s) (runId s) outputs] \<and>
               map tool_call_id outputs =
                 map tc_id (filter (\<lambda>c. tc_type c = ''function'') (tool_calls ra)) \<and>
               ((\<forall>c \<in> set (tool_calls ra). tc_type c = ''function'') \<longrightarrow>
                  length outputs = length (tool_calls ra) \<and>
                  tool_call_id ` set outputs = tc_id ` set (tool_calls ra)))) \<and>
         ((\<forall>c \<in> set (tool_calls ra).
              tc_type c = ''function'' \<and>
              (fn_name c = ''updateMap'' \<or> fn_name c = ''addMarker'') \<and>
              (\<exists>props. JSON_parse w (fn_arguments c) = Some (JObj props))) \<and>
          (\<forall>outputs. post_chat_submit w (threadId s) (runId s) outputs) \<longrightarrow>
            fst (invokeChatbotFunctions w r s) = Returns ())"
proof (intro conjI impI)
  assume ret: "invokeChatbotFunctions w r s = (Returns (), s')"
  obtain res s1 where loop: "tool_calls_loop w (tool_calls ra) [] s = (res, s1)"
    by (cases "tool_calls_loop w (tool_calls ra) [] s")
  from assms ret loop obtain outputs where res: "res = Returns outputs"
    by (cases res) (simp_all add: invokeChatbotFunctions_def)
  have frame: "only_map_changed s s1" using loop by (rule tool_calls_loop_frame)
  have req: "requests s' = requests s @ [PostChatSubmit (threadId s) (runId s) outputs]"
    using assms ret loop res frame
    by (auto simp: invokeChatbotFunctions_def Let_def only_map_changed_def split: if_splits)
  have ids: "map tool_call_id outputs =
               map tc_id (filter (\<lambda>c. tc_type c = ''function'') (tool_calls ra))"
    using tool_calls_loop_ids [of w "tool_calls ra" "[]" s outputs s1] loop res by simp
  have all: "length outputs = length (tool_calls ra) \<and>
             tool_call_id ` set outputs = tc_id ` set (tool_calls ra)"
    if "\<forall>c \<in> set (tool_calls ra). tc_type c = ''function''"
  proof -
    from that have "filter (\<lambda>c. tc_type c = ''function'') (tool_calls ra) = tool_calls ra"
      by simp
    with ids have m: "map tool_call_id outputs = map tc_id (tool_calls ra)" by simp
    then have "length (map tool_call_id outputs) = length (map tc_id (tool_calls ra))"
      by simp
    moreover from m have "set (map tool_call_id outputs) = set (map tc_id (tool_calls ra))"
      by simp
    ultimately show ?thesis by simp
  qed
  from req ids all
  show "\<exists>outputs.
          requests s' = requests s @ [PostChatSubmit (threadId s) (runId s) outputs] \<and>
          map tool_call_id outputs =
            map tc_id (filter (\<lambda>c. tc_type c = ''function'') (tool_calls ra)) \<and>
          ((\<forall>c \<in> set (tool_calls ra). tc_type c = ''function'') \<longrightarrow>
             length outputs = length (tool_calls ra) \<and>
             tool_call_id ` set outputs = tc_id ` set (tool_calls ra))"
    by blast
next
  assume ok: "(\<forall>c \<in> set (tool_calls ra).
              tc_type c = ''function'' \<and>
              (fn_name c = ''updateMap'' \<or> fn_name c = ''addMarker'') \<and>
              (\<exists>props. JSON_parse w (fn_arguments c) = Some (JObj props))) \<and>
          (\<forall>outputs. post_chat_submit w (threadId s) (runId s) outputs)"
  then obtain outputs s1 where
    loop: "tool_calls_loop w (tool_calls ra) [] s = (Returns outputs, s1)"
    using tool_calls_loop_registered_returns [of "tool_calls ra" w "[]" s] by blast
  have "only_map_changed s s1" using loop by (rule tool_calls_loop_frame)
  then have "threadId s1 = threadId s" "runId s1 = runId s"
    by (simp_all add: only_map_changed_def)
  with assms ok loop show "fst (invokeChatbotFunctions w r s) = Returns ()"
    by (simp add: invokeChatbotFunctions_def Let_def)
qed

text \<open>The amended claim C4 on the invocation of the scenario: one invocation, one result.\<close>

theorem invokeChatbotFunctions_outputs_match_witness:
  "run_required_action (run_requiring [paris_call]) =
     Some \<lparr> ra_type = ''submit_tool_outputs'', tool_calls = [paris_call] \<rparr> \<and>
   tc_type paris_call = ''function'' \<and> fn_name paris_call = ''updateMap'' \<and>
   JSON_parse (example_world (requiring [])) (fn_arguments paris_call) =
     Some (JObj [(''longitude'', JNum 2.35), (''latitude'', JNum 48.85), (''zoom'', JNum 12)]) \<and>
   post_chat_submit (example_world (requiring [])) = (\<lambda>thread r outputs. True) \<and>
   invokeChatbotFunctions (example_world (requiring [])) (run_requiring [paris_call])
       running_state =
     (Returns (),
      running_state
        \<lparr>mapCenter := \<lparr> latitude = JNum 48.85, longitude = JNum 2.35 \<rparr>,
         mapZoom := JNum 12,
         requests :=
           [PostChatSubmit (Some ''thread_1'') (Some ''run_1'')
              [\<lparr> tool_call_id = ''call_1'', tc_output = JStr ''Map updated'' \<rparr>]]\<rparr>) \<and>
   map tool_call_id [\<lparr> tool_call_id = ''call_1'', tc_output = JStr ''Map updated'' \<rparr>] =
     map tc_id [paris_call]"
proof -
  let ?w = "example_world (requiring [])"
  let ?ra = "\<lparr> ra_type = ''submit_tool_outputs'', tool_calls = [paris_call] \<rparr>"
  let ?r = "run_requiring [paris_call]"
  let ?out = "\<lparr> tool_call_id = ''call_1'', tc_output = JStr ''Map updated'' \<rparr>"
  let ?s' = "running_state
        \<lparr>mapCenter := \<lparr> latitude = JNum 48.85, longitude = JNum 2.35 \<rparr>,
         mapZoom := JNum 12,
         requests := [PostChatSubmit (Some ''thread_1'') (Some ''run_1'') [?out]]\<rparr>"
  have h1: "run_required_action ?r = Some ?ra" by (simp add: run_requiring_def)
  have h2: "ra_type ?ra = ''submit_tool_outputs''" by simp
  have h3: "tc_type paris_call = ''function''" "fn_name paris_call = ''updateMap''"
    by (simp_all add: paris_call_def)
  have h4: "JSON_parse ?w (fn_arguments paris_call) =
     Some (JObj [(''longitude'', JNum 2.35), (''latitude'', JNum 48.85), (''zoom'', JNum 12)])"
    by (simp add: example_defs)
  have h5: "post_chat_submit ?w = (\<lambda>thread r outputs. True)"
    by (simp add: example_world_def)
  note at_paris = invokeChatbotFunctions_outputs_match
                    [OF h1 h2, where w = ?w and s = running_state and s' = ?s']
  from at_paris h3 h4 h5
  have ret: "fst (invokeChatbotFunctions ?w ?r running_state) = Returns ()"
    by simp
  have "snd (invokeChatbotFunctions ?w ?r running_state) = ?s'"
    by (simp add: invokeChatbotFunctions_def call_chatbotFunction_def chatbotFunctions_def
          updateMap_def example_defs)
  with ret have run: "invokeChatbotFunctions ?w ?r running_state = (Returns (), ?s')"
    by (simp add: prod_eq_iff)
  with at_paris obtain outputs where
    o: "requests ?s' = requests running_state @
          [PostChatSubmit (threadId running_state) (runId running_state) outputs]"
       "map tool_call_id outputs =
          map tc_id (filter (\<lambda>c. tc_type c = ''function'') (tool_calls ?ra))"
    by blast
  from o(1) have "outputs = [?out]" by (simp add: example_defs)
  with o(2) h3 have ids: "map tool_call_id [?out] = map tc_id [paris_call]" by simp
  from h1 h3 h4 h5 run ids show ?thesis by blast
qed

subsection \<open>A run that fails\<close>

text \<open>
  Claim C5, as the specification states it: a poll that returns \<^verbatim>\<open>failed\<close> clears the
  active run at once, so that a new turn can be submitted. In the code the poll returns
  with the run \<^verbatim>\<open>run_1\<close> still recorded and with no timer set, and the next turn is
  ignored: no request follows the poll's own.
\<close>

theorem failed_run_stays_active:
  "updateMessages (example_world (no_messages (Some ''failed''))) running_state =
     (Returns (),
      running_state\<lparr>requests := [PostChatList (Some ''thread_1'') (Some ''run_1'')]\<rparr>) \<and>
   runId running_state = Some ''run_1'' \<and> timeouts running_state = [] \<and>
   sendMessage (example_world (no_messages (Some ''failed''))) ''Show me Rome''
       (snd (updateMessages (example_world (no_messages (Some ''failed''))) running_state)) =
     (Returns (),
      running_state\<lparr>requests := [PostChatList (Some ''thread_1'') (Some ''run_1'')]\<rparr>)"
  by (simp add: updateMessages_def sendMessage_def example_defs)

text \<open>
  Claim C5, amended: no poll changes the recorded run by itself. A poll that returns
  \<^verbatim>\<open>completed\<close> while a run is recorded sets a timer of 5000 ms whose callback clears
  the run; a poll with any other status sets no timer and leaves the run recorded. A
  poll that returns \<^verbatim>\<open>failed\<close> ends like any other: it returns normally, and the state
  differs only by the request and the refreshed log.
\<close>

theorem updateMessages_run_slot:
  assumes "post_chat_list w (threadId s) (runId s) = Some data"
  shows "runId (snd (updateMessages w s)) = runId s \<and>
         (lr_status data = Some ''failed'' \<longrightarrow>
            updateMessages w s =
              (Returns (),
               s\<lparr>requests := requests s @ [PostChatList (threadId s) (runId s)],
                 messages := rev (lr_messages data)\<rparr>)) \<and>
         (lr_status data \<noteq> Some ''completed'' \<longrightarrow>
            timeouts (snd (updateMessages w s)) = timeouts s) \<and>
         (lr_status data = Some ''completed'' \<and> truthy (runId s) \<longrightarrow>
            updateMessages w s =
              (Returns (),
               s\<lparr>requests := requests s @ [PostChatList (threadId s) (runId s)],
                 messages := rev (lr_messages data),
                 timeouts := timeouts s @ [(5000, ClearRunId)]\<rparr>) \<and>
            runId (fire ClearRunId (snd (updateMessages w s))) = None)"
proof (intro conjI impI)
  obtain res s' where u: "updateMessages w s = (res, s')"
    by (cases "updateMessages w s")
  from updateMessages_frame [OF u] u show "runId (snd (updateMessages w s)) = runId s"
    by simp
next
  assume "lr_status data = Some ''failed''"
  with assms show "updateMessages w s =
      (Returns (),
       s\<lparr>requests := requests s @ [PostChatList (threadId s) (runId s)],
         messages := rev (lr_messages data)\<rparr>)"
    by (simp add: updateMessages_def Let_def)
next
  assume "lr_status data \<noteq> Some ''completed''"
  with assms show "timeouts (snd (updateMessages w s)) = timeouts s"
    by (rule updateMessages_timeouts)
next
  assume c: "lr_status data = Some ''completed'' \<and> truthy (runId s)"
  with assms show "updateMessages w s =
      (Returns (),
       s\<lparr>requests := requests s @ [PostChatList (threadId s) (runId s)],
         messages := rev (lr_messages data),
         timeouts := timeouts s @ [(5000, ClearRunId)]\<rparr>)"
    by (simp add: updateMessages_def Let_def)
  then show "runId (fire ClearRunId (snd (updateMessages w s))) = None"
    by simp
qed

text \<open>The amended claim C5 on a poll that returns \<^verbatim>\<open>failed\<close> and one that returns \<^verbatim>\<open>completed\<close>.\<close>

theorem updateMessages_run_slot_witness:
  "post_chat_list (example_world (no_messages (Some ''failed'')))
      (threadId running_state) (runId running_state) = Some (no_messages (Some ''failed'')) \<and>
   lr_status (no_messages (Some ''failed'')) = Some ''failed'' \<and>
   lr_status (no_messages (Some ''failed'')) \<noteq> Some ''completed'' \<and>
   runId (snd (updateMessages (example_world (no_messages (Some ''failed''))) running_state)) =
     Some ''run_1'' \<and>
   timeouts (snd (updateMessages (example_world (no_messages (Some ''failed''))) running_state)) =
     [] \<and>
   post_chat_list (example_world (no_messages (Some ''completed'')))
      (threadId running_state) (runId running_state) = Some (no_messages (Some ''completed'')) \<and>
   (lr_status (no_messages (Some ''completed'')) = Some ''completed'' \<and>
    truthy (runId running_state)) \<and>
   timeouts (snd (updateMessages (example_world (no_messages (Some ''completed'')))
                    running_state)) = [(5000, ClearRunId)] \<and>
   runId (fire ClearRunId
            (snd (updateMessages (example_world (no_messages (Some ''completed'')))
                    running_state))) = None"
  using updateMessages_run_slot
          [where w = "example_world (no_messages (Some ''failed''))" and s = running_state
             and data = "no_messages (Some ''failed'')"]
        updateMessages_run_slot
          [where w = "example_world (no_messages (Some ''completed''))" and s = running_state
             and data = "no_messages (Some ''completed'')"]
  by (simp add: example_defs truthy_def)

subsection \<open>Creating and restoring the thread\<close>

text \<open>
  Claim C6, as the specification states it: a thread id that was stored and is loaded
  again resumes polling against the same run state. In the code only the thread id is
  stored. A client that holds \<^verbatim>\<open>thread_1\<close> with the run \<^verbatim>\<open>run_1\<close> active comes back
  from a reload with the same thread and no run: its one request to \<^verbatim>\<open>/chat/list\<close>
  carries no run id, no timer is set, and nothing polls the run.
\<close>

theorem reload_forgets_run:
  "runId running_state = Some ''run_1'' \<and>
   createThread (example_world (no_messages None)) (reload running_state) =
     (Returns (),
      (initial_state [''threadId'' \<mapsto> ''thread_1''])
        \<lparr>threadId := Some ''thread_1'',
         requests := [PostChatList (Some ''thread_1'') None]\<rparr>) \<and>
   runId (snd (createThread (example_world (no_messages None)) (reload running_state))) = None"
  by (simp add: createThread_def updateMessages_def reload_def truthy_def Let_def example_defs)

text \<open>
  Claim C6, amended: \<^verbatim>\<open>createThread\<close> with a thread id in memory does nothing. Without
  one, a non-empty id in the local storage is taken over, the messages are fetched once
  and no new thread is requested. An id obtained from \<^verbatim>\<open>/chat/new\<close> is stored, and
  after a reload \<^verbatim>\<open>createThread\<close> yields the same id; the run id is not stored, so the
  reloaded client has no run, and its first request fetches the messages without a run id.
\<close>

theorem createThread_idempotent:
  "(threadId s \<noteq> None \<longrightarrow> createThread w s = (Returns (), s)) \<and>
   (threadId s = None \<and> localStorage s ''threadId'' = Some t \<and> t \<noteq> [] \<longrightarrow>
      createThread w s = updateMessages w (s\<lparr>threadId := Some t\<rparr>) \<and>
      threadId (snd (createThread w s)) = Some t \<and>
      localStorage (snd (createThread w s)) = localStorage s \<and>
      count_list (requests (snd (createThread w s))) PostChatNew =
        count_list (requests s) PostChatNew) \<and>
   (threadId s = None \<and> \<not> truthy (localStorage s ''threadId'') \<and>
    post_chat_new w = Some t \<and> t \<noteq> [] \<longrightarrow>
      createThread w s =
        (Returns (),
         s\<lparr>requests := requests s @ [PostChatNew], threadId := Some t,
           localStorage := (localStorage s)(''threadId'' \<mapsto> t)\<rparr>) \<and>
      threadId (snd (createThread w' (reload (snd (createThread w s))))) = Some t \<and>
      runId (snd (createThread w' (reload (snd (createThread w s))))) = None \<and>
      (\<exists>rest. requests (snd (createThread w' (reload (snd (createThread w s))))) =
                PostChatList (Some t) None # rest \<and> PostChatNew \<notin> set rest))"
proof (intro conjI impI)
  assume "threadId s \<noteq> None"
  then show "createThread w s = (Returns (), s)"
    by (auto simp: createThread_def)
next
  assume a: "threadId s = None \<and> localStorage s ''threadId'' = Some t \<and> t \<noteq> []"
  obtain res s' where u: "updateMessages w (s\<lparr>threadId := Some t\<rparr>) = (res, s')"
    by (cases "updateMessages w (s\<lparr>threadId := Some t\<rparr>)")
  have f: "threadId s' = Some t" "localStorage s' = localStorage s"
    using updateMessages_frame [OF u] by simp_all
  show eq: "createThread w s = updateMessages w (s\<lparr>threadId := Some t\<rparr>)"
    using a u f by (cases res) (simp_all add: createThread_def truthy_def)
  show "threadId (snd (createThread w s)) = Some t" using eq u f by simp
  show "localStorage (snd (createThread w s)) = localStorage s" using eq u f by simp
  from updateMessages_requests [OF u] obtain rest where
    "requests s' = requests s @ PostChatList (Some t) (runId s) # rest" "PostChatNew \<notin> set rest"
    by auto
  then show "count_list (requests (snd (createThread w s))) PostChatNew =
             count_list (requests s) PostChatNew"
    using eq u by (simp add: count_list_0_iff)
next
  assume a: "threadId s = None \<and> \<not> truthy (localStorage s ''threadId'') \<and>
             post_chat_new w = Some t \<and> t \<noteq> []"
  let ?s1 = "s\<lparr>requests := requests s @ [PostChatNew], threadId := Some t,
                localStorage := (localStorage s)(''threadId'' \<mapsto> t)\<rparr>"
  show c: "createThread w s = (Returns (), ?s1)"
    using a by (simp add: createThread_def)
  let ?r = "(initial_state (localStorage ?s1))\<lparr>threadId := Some t\<rparr>"
  obtain res s2 where u: "updateMessages w' ?r = (res, s2)"
    by (cases "updateMessages w' ?r")
  have "createThread w' (reload ?s1) = updateMessages w' ?r"
    using u updateMessages_frame [OF u]
    by (cases res) (simp_all add: createThread_def reload_def truthy_def a initial_state_def)
  with c u have again: "snd (createThread w' (reload (snd (createThread w s)))) = s2"
    by simp
  from updateMessages_frame [OF u]
  show "threadId (snd (createThread w' (reload (snd (createThread w s))))) = Some t"
    and "runId (snd (createThread w' (reload (snd (createThread w s))))) = None"
    unfolding again by (simp_all add: initial_state_def)
  from updateMessages_requests [OF u]
  show "\<exists>rest. requests (snd (createThread w' (reload (snd (createThread w s))))) =
                PostChatList (Some t) None # rest \<and> PostChatNew \<notin> set rest"
    unfolding again by (simp add: initial_state_def)
qed

text \<open>
  The three cases of the amended claim C6: a client that holds \<^verbatim>\<open>thread_1\<close>, a fresh
  client over a storage that holds \<^verbatim>\<open>thread_1\<close>, and a fresh client over an empty
  storage that is reloaded once it has its thread.
\<close>

theorem createThread_idempotent_witness:
  "threadId idle_state \<noteq> None \<and>
   createThread offline_world idle_state = (Returns (), idle_state) \<and>
   (threadId (reload idle_state) = None \<and>
    localStorage (reload idle_state) ''threadId'' = Some ''thread_1'' \<and> ''thread_1'' \<noteq> []) \<and>
   threadId (snd (createThread offline_world (reload idle_state))) = Some ''thread_1'' \<and>
   count_list (requests (snd (createThread offline_world (reload idle_state)))) PostChatNew = 0 \<and>
   (threadId (initial_state Map.empty) = None \<and>
    \<not> truthy (localStorage (initial_state Map.empty) ''threadId'') \<and>
    post_chat_new (example_world (no_messages None)) = Some ''thread_1'') \<and>
   threadId (snd (createThread offline_world
      (reload (snd (createThread (example_world (no_messages None))
                      (initial_state Map.empty)))))) = Some ''thread_1'' \<and>
   runId (snd (createThread offline_world
      (reload (snd (createThread (example_world (no_messages None))
                      (initial_state Map.empty)))))) = None"
proof -
  let ?w = "example_world (no_messages None)"
  have held: "threadId idle_state \<noteq> None" by (simp add: example_defs)
  have stored: "threadId (reload idle_state) = None \<and>
                localStorage (reload idle_state) ''threadId'' = Some ''thread_1'' \<and>
                ''thread_1'' \<noteq> []"
    by (simp add: reload_def example_defs)
  have fresh: "threadId (initial_state Map.empty) = None \<and>
               \<not> truthy (localStorage (initial_state Map.empty) ''threadId'') \<and>
               post_chat_new ?w = Some ''thread_1'' \<and> ''thread_1'' \<noteq> []"
    by (simp add: truthy_def example_defs)
  from held createThread_idempotent [where s = idle_state and w = offline_world]
  have c1: "createThread offline_world idle_state = (Returns (), idle_state)"
    by blast
  from stored
    createThread_idempotent
      [where s = "reload idle_state" and w = offline_world and t = "''thread_1''"]
  have c2: "threadId (snd (createThread offline_world (reload idle_state))) = Some ''thread_1''"
    and c2': "count_list (requests (snd (createThread offline_world (reload idle_state))))
                PostChatNew = count_list (requests (reload idle_state)) PostChatNew"
    by blast+
  have "count_list (requests (reload idle_state)) PostChatNew = 0"
    by (simp add: reload_def initial_state_def)
  with c2' have c2'': "count_list (requests (snd (createThread offline_world (reload idle_state))))
                PostChatNew = 0" by simp
  from fresh
    createThread_idempotent
      [where s = "initial_state Map.empty" and w = ?w and t = "''thread_1''"
         and w' = offline_world]
  have c3: "threadId (snd (createThread offline_world
              (reload (snd (createThread ?w (initial_state Map.empty)))))) = Some ''thread_1''"
    and c3': "runId (snd (createThread offline_world
              (reload (snd (createThread ?w (initial_state Map.empty)))))) = None"
    by blast+
  from held c1 stored c2 c2'' fresh c3 c3' show ?thesis by blast
qed

subsection \<open>The message log\<close>

text \<open>
  Claim C7, as the specification states it: the displayed log has the newest message
  last even if the order in which the transport returns the messages varies. The code
  reverses whatever order it receives: the same two messages returned oldest first are
  displayed newest first, and returned newest first are displayed newest last.
\<close>

theorem oldest_first_snapshot_shown_newest_first:
  "created_at first_message < created_at second_message \<and>
   messages (snd (updateMessages (example_world (snapshot [first_message, second_message]))
                    idle_state)) = [second_message, first_message] \<and>
   messages (snd (updateMessages (example_world (snapshot [second_message, first_message]))
                    idle_state)) = [first_message, second_message]"
  by (simp add: updateMessages_def truthy_def example_defs)

text \<open>
  Claim C7, amended: after a poll whose request succeeds, the displayed log is the
  snapshot of the response in reversed order, whatever was displayed before; polling again
  with the same answer displays the same log; and if the transport returns the messages
  newest first, the log displays them oldest first, the newest last.
\<close>

theorem updateMessages_log_is_reversed_snapshot:
  assumes "post_chat_list w (threadId s) (runId s) = Some data"
  shows "messages (snd (updateMessages w s)) = rev (lr_messages data) \<and>
         messages (snd (updateMessages w (snd (updateMessages w s)))) =
           messages (snd (updateMessages w s)) \<and>
         (sorted_wrt (\<lambda>a b. created_at b \<le> created_at a) (lr_messages data) \<longrightarrow>
            sorted_wrt (\<lambda>a b. created_at a \<le> created_at b)
              (messages (snd (updateMessages w s))))"
proof -
  obtain res s' where u: "updateMessages w s = (res, s')"
    by (cases "updateMessages w s")
  have first: "messages s' = rev (lr_messages data)"
    using updateMessages_messages [OF assms] u by simp
  have same: "threadId s' = threadId s" "runId s' = runId s"
    using updateMessages_frame [OF u] by simp_all
  then have "post_chat_list w (threadId s') (runId s') = Some data"
    using assms by simp
  then have again: "messages (snd (updateMessages w s')) = rev (lr_messages data)"
    by (rule updateMessages_messages)
  have "sorted_wrt (\<lambda>a b. created_at a \<le> created_at b) (rev (lr_messages data))"
    if "sorted_wrt (\<lambda>a b. created_at b \<le> created_at a) (lr_messages data)"
    using that by (simp add: sorted_wrt_rev)
  with first again u show ?thesis by simp
qed

text \<open>The amended claim C7 on a snapshot of two messages returned newest first.\<close>

theorem updateMessages_log_is_reversed_snapshot_witness:
  "post_chat_list (example_world (snapshot [second_message, first_message]))
      (threadId running_state) (runId running_state) =
     Some (snapshot [second_message, first_message]) \<and>
   sorted_wrt (\<lambda>a b. created_at b \<le> created_at a)
     (lr_messages (snapshot [second_message, first_message])) \<and>
   messages (snd (updateMessages (example_world (snapshot [second_message, first_message]))
                    running_state)) = [first_message, second_message] \<and>
   sorted_wrt (\<lambda>a b. created_at a \<le> created_at b)
     (messages (snd (updateMessages (example_world (snapshot [second_message, first_message]))
                       running_state)))"
proof -
  let ?data = "snapshot [second_message, first_message]"
  have h: "post_chat_list (example_world ?data) (threadId running_state) (runId running_state) =
             Some ?data"
    by (simp add: example_world_def)
  have d: "sorted_wrt (\<lambda>a b. created_at b \<le> created_at a) (lr_messages ?data)"
    by (simp add: snapshot_def first_message_def second_message_def)
  from updateMessages_log_is_reversed_snapshot [OF h] d
  have "messages (snd (updateMessages (example_world ?data) running_state)) =
          rev (lr_messages ?data)"
    and "sorted_wrt (\<lambda>a b. created_at a \<le> created_at b)
           (messages (snd (updateMessages (example_world ?data) running_state)))"
    by blast+
  moreover have "rev (lr_messages ?data) = [first_message, second_message]"
    by (simp add: snapshot_def)
  ultimately show ?thesis using h d by simp
qed

subsection \<open>The backend: the message before the run\<close>

text \<open>
  Claim C8: the backend's \<^verbatim>\<open>sendMessage\<close> issues the creation of the message first and
  once, and the creation of the run only after the creation of the message has
  succeeded. If the message cannot be created, no other call is issued. If the message
  is created and the creation of the run fails, the function throws after exactly these
  two calls: a message has been sent, no run is returned and nothing is written to the
  store. If both succeed, the calls are the creation of the message, the creation of the
  run and the write to the store, in this order, and the run is returned when the write
  succeeds. A client whose request to \<^verbatim>\<open>/chat/send\<close> fails records no run.
\<close>

theorem backend_sendMessage_message_before_run:
  "(\<exists>rest. snd (backend_sendMessage b thread msg clientIp) =
             ThreadsMessagesCreate thread msg # rest \<and>
           ThreadsMessagesCreate thread msg \<notin> set rest \<and>
           (ThreadsRunsCreate thread (ASSISTANT_ID b) \<in> set rest \<longrightarrow>
              messages_create b thread msg)) \<and>
   (\<not> messages_create b thread msg \<longrightarrow>
      backend_sendMessage b thread msg clientIp =
        (Throws APIError, [ThreadsMessagesCreate thread msg])) \<and>
   (messages_create b thread msg \<and> runs_create b thread (ASSISTANT_ID b) = None \<longrightarrow>
      backend_sendMessage b thread msg clientIp =
        (Throws APIError,
         [ThreadsMessagesCreate thread msg, ThreadsRunsCreate thread (ASSISTANT_ID b)])) \<and>
   (messages_create b thread msg \<and> runs_create b thread (ASSISTANT_ID b) = Some r \<longrightarrow>
      snd (backend_sendMessage b thread msg clientIp) =
        [ThreadsMessagesCreate thread msg, ThreadsRunsCreate thread (ASSISTANT_ID b),
         MessagesInsertOne \<lparr> dm_addedDate = new_Date b, dm_threadId = thread,
                             dm_runId = run_id r, dm_text = msg, dm_ip = clientIp \<rparr>] \<and>
      fst (backend_sendMessage b thread msg clientIp) =
        (if insertOne b \<lparr> dm_addedDate = new_Date b, dm_threadId = thread,
                          dm_runId = run_id r, dm_text = msg, dm_ip = clientIp \<rparr>
         then Returns r else Throws MongoError)) \<and>
   (runId s = None \<and> post_chat_send w (threadId s) msg = None \<longrightarrow>
      fst (sendMessage w msg s) = Throws AxiosError \<and>
      runId (snd (sendMessage w msg s)) = None)"
  by (auto simp: backend_sendMessage_def sendMessage_def Let_def split: option.splits)

text \<open>
  Claim C8 on a backend whose run creation fails, on one whose calls all succeed, on one
  that cannot create the message, and on a client that gets no answer.
\<close>

theorem backend_sendMessage_message_before_run_witness:
  "(messages_create (example_backend False) ''thread_1'' ''Show me Paris'' \<and>
    runs_create (example_backend False) ''thread_1'' (ASSISTANT_ID (example_backend False)) = None) \<and>
   backend_sendMessage (example_backend False) ''thread_1'' ''Show me Paris'' ''203.0.113.7'' =
     (Throws APIError,
      [ThreadsMessagesCreate ''thread_1'' ''Show me Paris'',
       ThreadsRunsCreate ''thread_1'' ''asst_1'']) \<and>
   (messages_create (example_backend True) ''thread_1'' ''Show me Paris'' \<and>
    runs_create (example_backend True) ''thread_1'' (ASSISTANT_ID (example_backend True)) =
      Some \<lparr> run_id = ''run_1'', run_status = ''queued'', run_required_action = None \<rparr>) \<and>
   backend_sendMessage (example_backend True) ''thread_1'' ''Show me Paris'' ''203.0.113.7'' =
     (Returns \<lparr> run_id = ''run_1'', run_status = ''queued'', run_required_action = None \<rparr>,
      [ThreadsMessagesCreate ''thread_1'' ''Show me Paris'',
       ThreadsRunsCreate ''thread_1'' ''asst_1'',
       MessagesInsertOne \<lparr> dm_addedDate = 1700000000, dm_threadId = ''thread_1'',
                           dm_runId = ''run_1'', dm_text = ''Show me Paris'',
                           dm_ip = ''203.0.113.7'' \<rparr>]) \<and>
   \<not> messages_create (unreachable_backend) ''thread_1'' ''Show me Paris'' \<and>
   backend_sendMessage unreachable_backend ''thread_1'' ''Show me Paris'' ''203.0.113.7'' =
     (Throws APIError, [ThreadsMessagesCreate ''thread_1'' ''Show me Paris'']) \<and>
   (runId idle_state = None \<and>
    post_chat_send offline_world (threadId idle_state) ''Show me Paris'' = None) \<and>
   fst (sendMessage offline_world ''Show me Paris'' idle_state) = Throws AxiosError \<and>
   runId (snd (sendMessage offline_world ''Show me Paris'' idle_state)) = None"
proof -
  let ?r = "\<lparr> run_id = ''run_1'', run_status = ''queued'', run_required_action = None \<rparr>"
  have fails: "messages_create (example_backend False) ''thread_1'' ''Show me Paris'' \<and>
    runs_create (example_backend False) ''thread_1'' (ASSISTANT_ID (example_backend False)) = None"
    by (simp add: example_backend_def)
  have succeeds: "messages_create (example_backend True) ''thread_1'' ''Show me Paris'' \<and>
    runs_create (example_backend True) ''thread_1'' (ASSISTANT_ID (example_backend True)) = Some ?r"
    by (simp add: example_backend_def)
  have unreachable: "\<not> messages_create unreachable_backend ''thread_1'' ''Show me Paris''"
    by (simp add: unreachable_backend_def)
  have silent: "runId idle_state = None \<and>
    post_chat_send offline_world (threadId idle_state) ''Show me Paris'' = None"
    by (simp add: example_defs)
  from fails silent
    backend_sendMessage_message_before_run
      [where b = "example_backend False" and thread = "''thread_1''"
         and msg = "''Show me Paris''" and clientIp = "''203.0.113.7''"
         and s = idle_state and w = offline_world]
  have c1: "backend_sendMessage (example_backend False) ''thread_1'' ''Show me Paris''
              ''203.0.113.7'' =
              (Throws APIError,
               [ThreadsMessagesCreate ''thread_1'' ''Show me Paris'',
                ThreadsRunsCreate ''thread_1'' (ASSISTANT_ID (example_backend False))])"
    and c4: "fst (sendMessage offline_world ''Show me Paris'' idle_state) = Throws AxiosError"
            "runId (snd (sendMessage offline_world ''Show me Paris'' idle_state)) = None"
    by blast+
  from succeeds
    backend_sendMessage_message_before_run
      [where b = "example_backend True" and thread = "''thread_1''"
         and msg = "''Show me Paris''" and clientIp = "''203.0.113.7''" and r = ?r]
  have c2: "snd (backend_sendMessage (example_backend True) ''thread_1'' ''Show me Paris''
                   ''203.0.113.7'') =
              [ThreadsMessagesCreate ''thread_1'' ''Show me Paris'',
               ThreadsRunsCreate ''thread_1'' (ASSISTANT_ID (example_backend True)),
               MessagesInsertOne \<lparr> dm_addedDate = new_Date (example_backend True),
                                   dm_threadId = ''thread_1'', dm_runId = run_id ?r,
                                   dm_text = ''Show me Paris'', dm_ip = ''203.0.113.7'' \<rparr>]"
    and c2': "fst (backend_sendMessage (example_backend True) ''thread_1'' ''Show me Paris''
                   ''203.0.113.7'') =
              (if insertOne (example_backend True)
                    \<lparr> dm_addedDate = new_Date (example_backend True),
                      dm_threadId = ''thread_1'', dm_runId = run_id ?r,
                      dm_text = ''Show me Paris'', dm_ip = ''203.0.113.7'' \<rparr>
               then Returns ?r else Throws MongoError)"
    by blast+
  from c2 c2' have c2'':
    "backend_sendMessage (example_backend True) ''thread_1'' ''Show me Paris'' ''203.0.113.7'' =
     (Returns ?r,
      [ThreadsMessagesCreate ''thread_1'' ''Show me Paris'',
       ThreadsRunsCreate ''thread_1'' ''asst_1'',
       MessagesInsertOne \<lparr> dm_addedDate = 1700000000, dm_threadId = ''thread_1'',
                           dm_runId = ''run_1'', dm_text = ''Show me Paris'',
                           dm_ip = ''203.0.113.7'' \<rparr>])"
    by (simp add: prod_eq_iff example_backend_def)
  from c1 have c1': "backend_sendMessage (example_backend False) ''thread_1'' ''Show me Paris''
              ''203.0.113.7'' =
              (Throws APIError,
               [ThreadsMessagesCreate ''thread_1'' ''Show me Paris'',
                ThreadsRunsCreate ''thread_1'' ''asst_1''])"
    by (simp add: example_backend_def)
  from unreachable
    backend_sendMessage_message_before_run
      [where b = unreachable_backend and thread = "''thread_1''"
         and msg = "''Show me Paris''" and clientIp = "''203.0.113.7''"]
  have c3: "backend_sendMessage unreachable_backend ''thread_1'' ''Show me Paris''
              ''203.0.113.7'' = (Throws APIError, [ThreadsMessagesCreate ''thread_1'' ''Show me Paris''])"
    by blast
  from fails c1' succeeds c2'' unreachable c3 silent c4 show ?thesis by blast
qed

subsection \<open>The tool handlers\<close>

text \<open>
  Claim C9, as the specification states it: for all arguments, \<^verbatim>\<open>updateMap\<close> returns
  \<^verbatim>\<open>"Map updated"\<close> and \<^verbatim>\<open>addMarker\<close> returns \<^verbatim>\<open>"Marker added"\<close>. The registry is
  called with whatever \<^verbatim>\<open>JSON.parse\<close> yields: on the argument \<^verbatim>\<open>null\<close> the
  destructuring of the parameter throws a \<^verbatim>\<open>TypeError\<close> and no string is returned, and a
  tool call whose arguments are the text \<^verbatim>\<open>null\<close> makes the dispatch throw it.
\<close>

theorem tool_handlers_throw_on_null:
  "updateMap JNull running_state = (Throws TypeError, running_state) \<and>
   addMarker JNull running_state = (Throws TypeError, running_state) \<and>
   JSON_parse null_world (fn_arguments null_call) = Some JNull \<and>
   invokeChatbotFunctions null_world (run_requiring [null_call]) running_state =
     (Throws TypeError, running_state)"
  by (simp add: updateMap_def addMarker_def invokeChatbotFunctions_def
        call_chatbotFunction_def chatbotFunctions_def example_defs)

text \<open>
  Claim C9, amended: for every argument other than \<^verbatim>\<open>null\<close> and \<^verbatim>\<open>undefined\<close>,
  \<^verbatim>\<open>updateMap\<close> returns \<^verbatim>\<open>"Map updated"\<close> and sets the centre and the zoom of the map,
  and \<^verbatim>\<open>addMarker\<close> returns \<^verbatim>\<open>"Marker added"\<close> and sets the marker; on \<^verbatim>\<open>null\<close> and
  \<^verbatim>\<open>undefined\<close> both throw a \<^verbatim>\<open>TypeError\<close> and leave the state as it was. Whatever
  the argument, \<^verbatim>\<open>updateMap\<close> changes nothing but the centre and the zoom, and
  \<^verbatim>\<open>addMarker\<close> nothing but the marker: the thread id, the run id, the message log and
  every other field stay, and no request is issued.
\<close>

theorem tool_handlers_frame:
  "(args \<noteq> JNull \<and> args \<noteq> JUndefined \<longrightarrow>
      updateMap args s =
        (Returns ''Map updated'',
         s\<lparr>mapCenter := \<lparr> latitude = destructure args ''latitude'',
                           longitude = destructure args ''longitude'' \<rparr>,
           mapZoom := destructure args ''zoom''\<rparr>) \<and>
      addMarker args s =
        (Returns ''Marker added'',
         s\<lparr>mapMarker := Some \<lparr> latitude = destructure args ''latitude'',
                                longitude = destructure args ''longitude'',
                                label = destructure args ''label'' \<rparr>\<rparr>)) \<and>
   (args = JNull \<or> args = JUndefined \<longrightarrow>
      updateMap args s = (Throws TypeError, s) \<and>
      addMarker args s = (Throws TypeError, s)) \<and>
   only_map_changed s (snd (updateMap args s)) \<and>
   mapMarker (snd (updateMap args s)) = mapMarker s \<and>
   only_map_changed s (snd (addMarker args s)) \<and>
   mapCenter (snd (addMarker args s)) = mapCenter s \<and>
   mapZoom (snd (addMarker args s)) = mapZoom s"
  by (simp add: updateMap_def addMarker_def only_map_changed_def)

text \<open>
  The amended claim C9 on the arguments of the scenario, on arguments that name a place
  with a label, and on \<^verbatim>\<open>null\<close>.
\<close>

theorem tool_handlers_frame_witness:
  "(JObj [(''longitude'', JNum 2.35), (''latitude'', JNum 48.85), (''zoom'', JNum 12)] \<noteq> JNull \<and>
    JObj [(''longitude'', JNum 2.35), (''latitude'', JNum 48.85), (''zoom'', JNum 12)]
      \<noteq> JUndefined) \<and>
   updateMap (JObj [(''longitude'', JNum 2.35), (''latitude'', JNum 48.85), (''zoom'', JNum 12)])
       running_state =
     (Returns ''Map updated'',
      running_state\<lparr>mapCenter := \<lparr> latitude = JNum 48.85, longitude = JNum 2.35 \<rparr>,
                    mapZoom := JNum 12\<rparr>) \<and>
   addMarker (JObj [(''latitude'', JNum 48.85), (''longitude'', JNum 2.35),
                    (''label'', JStr ''Paris'')])
       running_state =
     (Returns ''Marker added'',
      running_state\<lparr>mapMarker := Some \<lparr> latitude = JNum 48.85, longitude = JNum 2.35,
                                         label = JStr ''Paris'' \<rparr>\<rparr>) \<and>
   (JNull = JNull \<or> JNull = JUndefined) \<and>
   updateMap JNull idle_state = (Throws TypeError, idle_state) \<and>
   addMarker JNull idle_state = (Throws TypeError, idle_state)"
proof -
  let ?paris = "JObj [(''longitude'', JNum 2.35), (''latitude'', JNum 48.85),
                      (''zoom'', JNum 12)]"
  let ?place = "JObj [(''latitude'', JNum 48.85), (''longitude'', JNum 2.35),
                      (''label'', JStr ''Paris'')]"
  have p: "?paris \<noteq> JNull \<and> ?paris \<noteq> JUndefined" by simp
  have q: "?place \<noteq> JNull \<and> ?place \<noteq> JUndefined" by simp
  have n: "JNull = JNull \<or> JNull = JUndefined" by simp
  from p tool_handlers_frame [where args = ?paris and s = running_state]
  have "updateMap ?paris running_state =
        (Returns ''Map updated'',
         running_state\<lparr>mapCenter := \<lparr> latitude = destructure ?paris ''latitude'',
                           longitude = destructure ?paris ''longitude'' \<rparr>,
           mapZoom := destructure ?paris ''zoom''\<rparr>)"
    by blast
  then have c1: "updateMap ?paris running_state =
     (Returns ''Map updated'',
      running_state\<lparr>mapCenter := \<lparr> latitude = JNum 48.85, longitude = JNum 2.35 \<rparr>,
                    mapZoom := JNum 12\<rparr>)"
    by simp
  from q tool_handlers_frame [where args = ?place and s = running_state]
  have "addMarker ?place running_state =
        (Returns ''Marker added'',
         running_state\<lparr>mapMarker := Some \<lparr> latitude = destructure ?place ''latitude'',
                                longitude = destructure ?place ''longitude'',
                                label = destructure ?place ''label'' \<rparr>\<rparr>)"
    by blast
  then have c2: "addMarker ?place running_state =
     (Returns ''Marker added'',
      running_state\<lparr>mapMarker := Some \<lparr> latitude = JNum 48.85, longitude = JNum 2.35,
                                         label = JStr ''Paris'' \<rparr>\<rparr>)"
    by simp
  from n tool_handlers_frame [where args = JNull and s = idle_state]
  have c3: "updateMap JNull idle_state = (Throws TypeError, idle_state)"
    and c4: "addMarker JNull idle_state = (Throws TypeError, idle_state)"
    by blast+
  from p c1 c2 n c3 c4 show ?thesis by blast
qed

subsection \<open>The input field\<close>





end
